theory Spec2Isabelle
  imports Main "HOL-Library.Word"
begin

section \<open>The font file handle of dwritewrapper/fontfile.cpp\<close>

text \<open>
  The source is one C++/CLI class, \<^verbatim>\<open>FontFile\<close>, wrapping a native
  \<^verbatim>\<open>IDWriteFontFile*\<close>. Every native call is an oracle of the record
  \<open>native\<close>: it maps the arguments of the call to the status code and to the values
  the out-parameters hold after the call. Each operation of the class returns its
  outcome together with the list of native calls, allocations and releases it
  performed, in order.
\<close>

subsection \<open>Platform types and constants\<close>

type_synonym HRESULT = "32 word"
type_synonym UINT32 = "32 word"
type_synonym BOOL = "32 word"
type_synonym WCHAR = "16 word"
type_synonym GUID = "128 word"
type_synonym DWRITE_FONT_FILE_TYPE = "32 word"
type_synonym DWRITE_FONT_FACE_TYPE = "32 word"

text \<open>A native address; \<open>0\<close> is \<^verbatim>\<open>NULL\<close>.\<close>

type_synonym ptr = nat

text \<open>
  Modelled from the spec: the platform macro \<^verbatim>\<open>FAILED\<close> and the constants
  \<^verbatim>\<open>E_NOINTERFACE\<close> and \<^verbatim>\<open>UINT_MAX\<close> come from headers that are not
  part of the repository. A status "indicates error" when, read as a signed 32-bit
  value, it is negative; "no such interface" is the status \<^verbatim>\<open>0x80004002\<close>.
\<close>

definition FAILED :: "HRESULT \<Rightarrow> bool" where
  "FAILED hr = (sint hr < 0)"

definition E_NOINTERFACE :: HRESULT where
  "E_NOINTERFACE = 0x80004002"

definition UINT_MAX :: UINT32 where
  "UINT_MAX = 0xFFFFFFFF"

text \<open>Two further status codes, used only as concrete inputs.\<close>

definition S_OK :: HRESULT where
  "S_OK = 0"

definition E_FAIL :: HRESULT where
  "E_FAIL = 0x80004005"

text \<open>
  The static constructor: the identity of \<^verbatim>\<open>IDWriteLocalFontFileLoader\<close>,
  \<^verbatim>\<open>b2d9f3ec-c9fe-4a11-a2ec-d86208f7c0a2\<close>, computed once and never changed.
\<close>

definition guidForIDWriteLocalFontFileLoader :: GUID where
  "guidForIDWriteLocalFontFileLoader = 0xb2d9f3ecc9fe4a11a2ecd86208f7c0a2"

subsection \<open>Outcomes and the trace of native effects\<close>

datatype exn =
    StatusFailure HRESULT string
  | NullReferenceException
  | OutOfMemoryException

text \<open>
  An operation returns a value, raises an exception to its caller, stops the process
  on a failed invariant (\<open>FailFast\<close>), or does something to which C++ gives no meaning
  (\<open>Undefined\<close>: a call through a null native pointer, a read past an allocation).
\<close>

datatype 'a outcome = Returned 'a | Raised exn | FailFast | Undefined

datatype iface = IDWriteFontFile | IDWriteFontFileLoader | IDWriteLocalFontFileLoader

datatype event =
    Ev_Analyze ptr
  | Ev_GetLoader ptr
  | Ev_QueryInterface ptr GUID
  | Ev_GetReferenceKey ptr
  | Ev_GetFilePathLengthFromKey ptr ptr UINT32
  | Ev_GetFilePathFromKey ptr ptr UINT32 UINT32
  | Ev_Release iface ptr
  | Ev_new_WCHAR UINT32
  | Ev_delete_WCHAR

record native =
  IDWriteFontFile_Analyze ::
    "ptr \<Rightarrow> HRESULT \<times> BOOL \<times> DWRITE_FONT_FILE_TYPE \<times> DWRITE_FONT_FACE_TYPE \<times> UINT32"
  IDWriteFontFile_GetLoader :: "ptr \<Rightarrow> HRESULT \<times> ptr"
  IDWriteFontFile_GetReferenceKey :: "ptr \<Rightarrow> HRESULT \<times> ptr \<times> UINT32"
  IUnknown_QueryInterface :: "ptr \<Rightarrow> GUID \<Rightarrow> HRESULT \<times> ptr"
  GetFilePathLengthFromKey :: "ptr \<Rightarrow> ptr \<Rightarrow> UINT32 \<Rightarrow> HRESULT \<times> UINT32"
  GetFilePathFromKey :: "ptr \<Rightarrow> ptr \<Rightarrow> UINT32 \<Rightarrow> UINT32 \<Rightarrow> HRESULT \<times> WCHAR list"
  memory :: "ptr \<Rightarrow> 8 word list"
  operator_new :: "UINT32 \<Rightarrow> bool"

text \<open>
  \<open>GetFilePathFromKey n loader key size capacity\<close> gives the status and the contents
  of the caller's buffer after the call; \<open>memory n p\<close> gives the bytes of the native
  allocation that starts at \<open>p\<close>; \<open>operator_new n count\<close> tells whether
  \<^verbatim>\<open>new WCHAR[count]\<close> succeeds.
\<close>

text \<open>
  Modelled from the spec: \<^verbatim>\<open>ConvertHresultToException\<close> is declared outside the
  repository's sources. A failing status surfaces as an error that carries the status
  code and the operation name it was given; any other status continues.
\<close>

definition ConvertHresultToException :: "HRESULT \<Rightarrow> string \<Rightarrow> exn option" where
  "ConvertHresultToException hr context =
     (if FAILED hr then Some (StatusFailure hr context) else None)"

text \<open>
  Modelled from the spec: \<^verbatim>\<open>MS::Internal::Invariant::Assert\<close> is declared outside
  the repository's sources. A violated invariant is a fatal, unrecoverable condition and
  not an error raised to the caller: \<open>True\<close> means that execution continues.
\<close>

definition Invariant_Assert :: "bool \<Rightarrow> bool" where
  "Invariant_Assert condition = condition"

subsection \<open>Strings read from native memory\<close>

text \<open>Two bytes make one wide character, low byte first; a trailing odd byte is no character.\<close>

fun wchars_of_bytes :: "8 word list \<Rightarrow> WCHAR list" where
  "wchars_of_bytes (lo # hi # bs) = (ucast lo + 256 * ucast hi) # wchars_of_bytes bs"
| "wchars_of_bytes bs = []"

text \<open>
  \<^verbatim>\<open>gcnew System::String(WCHAR*)\<close> on the characters of an allocation: the characters
  before the first terminator. Without a terminator the read leaves the allocation.
\<close>

definition String_of_wchars :: "WCHAR list \<Rightarrow> WCHAR list option" where
  "String_of_wchars ws =
     (if 0 \<in> set ws then Some (takeWhile (\<lambda>c. c \<noteq> 0) ws) else None)"

text \<open>The same constructor on an address: the runtime gives the empty string for a null pointer.\<close>

definition String_at :: "native \<Rightarrow> ptr \<Rightarrow> WCHAR list option" where
  "String_at n p =
     (if p = 0 then Some [] else String_of_wchars (wchars_of_bytes (memory n p)))"

subsection \<open>The class\<close>

text \<open>
  The only field, \<^verbatim>\<open>_fontFile\<close>, is a managed reference to a wrapper of the native
  pointer: \<open>None\<close> is \<^verbatim>\<open>nullptr\<close>, \<open>Some p\<close> a wrapper holding \<open>p\<close>. The
  constructor stores the pointer it is given and validates nothing. The calls of
  \<^verbatim>\<open>System::GC::KeepAlive\<close> compute nothing and are left out.
\<close>

record FontFile =
  fontFile :: "ptr option"

definition FontFile_ctor :: "ptr \<Rightarrow> FontFile" where
  "FontFile_ctor p = \<lparr>fontFile = Some p\<rparr>"

text \<open>
  Modelled from the spec: \<^verbatim>\<open>NativeIUnknownWrapper\<close> is declared outside the
  repository's sources. Deleting the wrapper releases the native reference it owns.
\<close>

definition delete_NativeIUnknownWrapper :: "ptr \<Rightarrow> event list" where
  "delete_NativeIUnknownWrapper p = [Ev_Release IDWriteFontFile p]"

definition FontFile_dtor :: "FontFile \<Rightarrow> unit outcome \<times> FontFile \<times> event list" where
  "FontFile_dtor this =
     (case fontFile this of
        None \<Rightarrow> (Returned (), this, [])
      | Some p \<Rightarrow> (Returned (), this\<lparr>fontFile := None\<rparr>, delete_NativeIUnknownWrapper p))"

text \<open>
  \<^verbatim>\<open>_fontFile->Value\<close>: the runtime traps the dereference of a null managed
  reference; the source itself tests nothing.
\<close>

definition fontFile_Value :: "FontFile \<Rightarrow> ptr outcome" where
  "fontFile_Value this =
     (case fontFile this of None \<Rightarrow> Raised NullReferenceException | Some p \<Rightarrow> Returned p)"

definition DWriteFontFileNoAddRef_get :: "FontFile \<Rightarrow> ptr outcome" where
  "DWriteFontFileNoAddRef_get this = fontFile_Value this"

text \<open>The parameters \<^verbatim>\<open>Analyze\<close> takes by reference, before and after the call.\<close>

record Analyze_refs =
  fontFileType :: DWRITE_FONT_FILE_TYPE
  fontFaceType :: DWRITE_FONT_FACE_TYPE
  numberOfFaces :: UINT32
  hr :: HRESULT

definition Analyze ::
  "native \<Rightarrow> FontFile \<Rightarrow> Analyze_refs \<Rightarrow> bool outcome \<times> Analyze_refs \<times> event list" where
  "Analyze n this refs =
     (case fontFile_Value this of
        Returned p \<Rightarrow>
          if p = 0 then (Undefined, refs, [])
          else
            (case IDWriteFontFile_Analyze n p of
               (h, isSupported, dwriteFontFileType, dwriteFontFaceType, numberOfFacesDWrite) \<Rightarrow>
                 if FAILED h then (Returned False, refs\<lparr>hr := h\<rparr>, [Ev_Analyze p])
                 else
                   (Returned (isSupported \<noteq> 0),
                    refs\<lparr>hr := h,
                         fontFileType := dwriteFontFileType,
                         fontFaceType := dwriteFontFaceType,
                         numberOfFaces := numberOfFacesDWrite\<rparr>,
                    [Ev_Analyze p]))
      | Raised e \<Rightarrow> (Raised e, refs, [])
      | FailFast \<Rightarrow> (FailFast, refs, [])
      | Undefined \<Rightarrow> (Undefined, refs, []))"

text \<open>
  \<^verbatim>\<open>ReleaseInterface\<close>: the argument is the address of the caller's variable
  (\<open>None\<close> for a null address); the result is the variable afterwards.
\<close>

definition ReleaseInterface :: "ptr option \<Rightarrow> ptr option \<times> event list" where
  "ReleaseInterface ppInterface =
     (case ppInterface of
        None \<Rightarrow> (None, [])
      | Some pInterface \<Rightarrow>
          if pInterface \<noteq> 0
          then (Some 0, [Ev_Release IDWriteLocalFontFileLoader pInterface])
          else (Some pInterface, []))"

definition GetUriPath_context :: string where
  "GetUriPath_context = ''System::String^ FontFile::GetUriPath''"

text \<open>The branch taken when the capability query reports \<^verbatim>\<open>E_NOINTERFACE\<close>.\<close>

definition GetUriPath_fallback :: "native \<Rightarrow> ptr \<Rightarrow> WCHAR list outcome \<times> event list" where
  "GetUriPath_fallback n p =
     (case IDWriteFontFile_GetReferenceKey n p of
        (h, fontFileReferenceKey, sizeOfFontFileReferenceKey) \<Rightarrow>
          (case ConvertHresultToException h GetUriPath_context of
             Some e \<Rightarrow> (Raised e, [Ev_GetReferenceKey p])
           | None \<Rightarrow>
               (case String_at n fontFileReferenceKey of
                  None \<Rightarrow> (Undefined, [Ev_GetReferenceKey p])
                | Some s \<Rightarrow> (Returned s, [Ev_GetReferenceKey p]))))"

text \<open>
  The body of the \<^verbatim>\<open>try\<close> block. The middle component tells whether
  \<^verbatim>\<open>fontFilePath\<close> is non-null when the block is left.
\<close>

definition GetUriPath_try ::
  "native \<Rightarrow> ptr \<Rightarrow> ptr \<Rightarrow> WCHAR list outcome \<times> bool \<times> event list" where
  "GetUriPath_try n p localFontFileLoader =
     (case IDWriteFontFile_GetReferenceKey n p of
        (h1, fontFileReferenceKey, sizeOfFontFileReferenceKey) \<Rightarrow>
          (case ConvertHresultToException h1 GetUriPath_context of
             Some e \<Rightarrow> (Raised e, False, [Ev_GetReferenceKey p])
           | None \<Rightarrow>
               if localFontFileLoader = 0 then (Undefined, False, [Ev_GetReferenceKey p])
               else
                 (case GetFilePathLengthFromKey n localFontFileLoader
                         fontFileReferenceKey sizeOfFontFileReferenceKey of
                    (h2, sizeOfFilePath) \<Rightarrow>
                      (let t2 = [Ev_GetReferenceKey p,
                                 Ev_GetFilePathLengthFromKey localFontFileLoader
                                   fontFileReferenceKey sizeOfFontFileReferenceKey]
                       in case ConvertHresultToException h2 GetUriPath_context of
                            Some e \<Rightarrow> (Raised e, False, t2)
                          | None \<Rightarrow>
                              if \<not> Invariant_Assert (sizeOfFilePath \<ge> 0 \<and> sizeOfFilePath < UINT_MAX)
                              then (FailFast, False, t2)
                              else if \<not> operator_new n (sizeOfFilePath + 1)
                              then (Raised OutOfMemoryException, False, t2)
                              else
                                (case GetFilePathFromKey n localFontFileLoader
                                        fontFileReferenceKey sizeOfFontFileReferenceKey
                                        (sizeOfFilePath + 1) of
                                   (h3, fontFilePath) \<Rightarrow>
                                     (let t4 = t2 @ [Ev_new_WCHAR (sizeOfFilePath + 1),
                                                Ev_GetFilePathFromKey localFontFileLoader
                                                  fontFileReferenceKey sizeOfFontFileReferenceKey
                                                  (sizeOfFilePath + 1)]
                                      in case ConvertHresultToException h3 GetUriPath_context of
                                           Some e \<Rightarrow> (Raised e, True, t4)
                                         | None \<Rightarrow>
                                             (case String_of_wchars
                                                     (take (unat (sizeOfFilePath + 1)) fontFilePath) of
                                                None \<Rightarrow> (Undefined, True, t4)
                                              | Some s \<Rightarrow> (Returned s, True, t4))))))))"

text \<open>The \<^verbatim>\<open>finally\<close> block.\<close>

definition GetUriPath_finally :: "ptr \<Rightarrow> bool \<Rightarrow> event list" where
  "GetUriPath_finally localFontFileLoader allocated =
     snd (ReleaseInterface (Some localFontFileLoader))
       @ (if allocated then [Ev_delete_WCHAR] else [])"

text \<open>
  The handler runs when the block returns or raises; a process stopped by a failed
  invariant, or one without defined behaviour, runs nothing further.
\<close>

definition try_finally ::
  "WCHAR list outcome \<times> bool \<times> event list \<Rightarrow> ptr \<Rightarrow> WCHAR list outcome \<times> event list" where
  "try_finally body localFontFileLoader =
     (case body of
        (Returned s, allocated, t) \<Rightarrow>
          (Returned s, t @ GetUriPath_finally localFontFileLoader allocated)
      | (Raised e, allocated, t) \<Rightarrow>
          (Raised e, t @ GetUriPath_finally localFontFileLoader allocated)
      | (FailFast, allocated, t) \<Rightarrow> (FailFast, t)
      | (Undefined, allocated, t) \<Rightarrow> (Undefined, t))"

definition prepend :: "event list \<Rightarrow> 'a \<times> event list \<Rightarrow> 'a \<times> event list" where
  "prepend t r = (fst r, t @ snd r)"

definition GetUriPath :: "native \<Rightarrow> FontFile \<Rightarrow> WCHAR list outcome \<times> event list" where
  "GetUriPath n this =
     (case fontFile_Value this of
        Returned p \<Rightarrow>
          if p = 0 then (Undefined, [])
          else
            (case IDWriteFontFile_GetLoader n p of
               (h0, fontFileLoader) \<Rightarrow>
                 (case ConvertHresultToException h0 GetUriPath_context of
                    Some e \<Rightarrow> (Raised e, [Ev_GetLoader p])
                  | None \<Rightarrow>
                      if fontFileLoader = 0 then (Undefined, [Ev_GetLoader p])
                      else
                        (case IUnknown_QueryInterface n fontFileLoader
                                guidForIDWriteLocalFontFileLoader of
                           (h, localFontFileLoaderInterfacePointer) \<Rightarrow>
                             prepend [Ev_GetLoader p,
                                      Ev_QueryInterface fontFileLoader
                                        guidForIDWriteLocalFontFileLoader]
                               (if h = E_NOINTERFACE then GetUriPath_fallback n p
                                else try_finally
                                       (GetUriPath_try n p localFontFileLoaderInterfacePointer)
                                       localFontFileLoaderInterfacePointer))))
      | Raised e \<Rightarrow> (Raised e, [])
      | FailFast \<Rightarrow> (FailFast, [])
      | Undefined \<Rightarrow> (Undefined, []))"

subsection \<open>Reading a trace\<close>

fun is_Release :: "event \<Rightarrow> bool" where
  "is_Release (Ev_Release i p) = True"
| "is_Release e = False"

fun is_new_WCHAR :: "event \<Rightarrow> bool" where
  "is_new_WCHAR (Ev_new_WCHAR c) = True"
| "is_new_WCHAR e = False"

subsection \<open>A concrete native environment\<close>

text \<open>
  A font file whose loader has the local-file capability: the file is analysed as
  supported with four faces, its loader is at address 10, the local-file interface at
  address 30, the reference key at address 20, and the path is the two characters
  \<^verbatim>\<open>C:\<close>. Other environments are updates of this one.
\<close>

definition local_env :: native where
  "local_env =
     \<lparr>IDWriteFontFile_Analyze = (\<lambda>p. (S_OK, 1, 2, 3, 4)),
      IDWriteFontFile_GetLoader = (\<lambda>p. (S_OK, 10)),
      IDWriteFontFile_GetReferenceKey = (\<lambda>p. (S_OK, 20, 6)),
      IUnknown_QueryInterface = (\<lambda>p g. (S_OK, 30)),
      GetFilePathLengthFromKey = (\<lambda>l k s. (S_OK, 2)),
      GetFilePathFromKey = (\<lambda>l k s c. (S_OK, [0x43, 0x3A, 0])),
      memory = (\<lambda>p. if p = 20 then [0x43, 0, 0x3A, 0, 0, 0] else []),
      operator_new = (\<lambda>c. True)\<rparr>"

definition refs0 :: Analyze_refs where
  "refs0 = \<lparr>fontFileType = 7, fontFaceType = 8, numberOfFaces = 9, hr = 0\<rparr>"

section \<open>Properties\<close>

subsection \<open>Auxiliary facts\<close>

lemmas GetUriPath_defs =
  GetUriPath_def GetUriPath_try_def GetUriPath_fallback_def try_finally_def prepend_def
  GetUriPath_finally_def ReleaseInterface_def fontFile_Value_def
  ConvertHresultToException_def Invariant_Assert_def

lemmas const_defs =
  FAILED_def S_OK_def E_FAIL_def E_NOINTERFACE_def UINT_MAX_def GetUriPath_context_def
  FontFile_ctor_def guidForIDWriteLocalFontFileLoader_def

lemma below_UINT_MAX: "(len < UINT_MAX) = (len \<noteq> UINT_MAX)"
proof -
  have "UINT_MAX = - 1" by (simp add: UINT_MAX_def)
  then show ?thesis using word_order.not_eq_extremum [of len] by simp
qed

lemma unat_plus_one: "len \<noteq> UINT_MAX \<Longrightarrow> unat (len + 1) = unat len + 1"
proof -
  assume a: "len \<noteq> UINT_MAX"
  have "UINT_MAX = - 1" by (simp add: UINT_MAX_def)
  with a have "1 + len \<noteq> 0" by (simp add: add_eq_0_iff)
  then show ?thesis using unatSuc [of len] by (simp add: add.commute)
qed

lemmas run_defs =
  GetUriPath_defs Let_def String_of_wchars_def String_at_def const_defs local_env_def

lemma FAILED_E_FAIL: "FAILED E_FAIL"
  by (simp add: FAILED_def E_FAIL_def)

lemma not_FAILED_S_OK: "\<not> FAILED S_OK"
  by (simp add: FAILED_def S_OK_def)

lemma FAILED_E_NOINTERFACE: "FAILED E_NOINTERFACE"
  by (simp add: FAILED_def E_NOINTERFACE_def)

lemma length_until_terminator:
  "0 \<in> set (take (Suc k) buf) \<Longrightarrow>
     length (takeWhile (\<lambda>c. c \<noteq> (0::WCHAR)) (take (Suc k) buf)) \<le> k
     \<and> (length (takeWhile (\<lambda>c. c \<noteq> 0) (take (Suc k) buf)) = k) = (0 \<notin> set (take k buf))"
proof (induction buf arbitrary: k)
  case Nil
  then show ?case by simp
next
  case (Cons c cs)
  show ?case
  proof (cases k)
    case 0
    with Cons.prems show ?thesis by simp
  next
    case (Suc j)
    with Cons.prems Cons.IH [of j] show ?thesis by auto
  qed
qed

subsection \<open>Analyze\<close>

text \<open>
  Claim C5. On a handle that holds a native reference, when the native analyze call
  reports a failing status, \<^verbatim>\<open>Analyze\<close> returns false without raising, stores
  the raw status in the by-reference status parameter and leaves the three
  classification parameters (container type, face type, face count) as they were.
  When the native call succeeds and reports the format unsupported, it returns false
  without raising, stores the successful status and stores the three classification
  values the native call produced.
\<close>

theorem Analyze_failure_policy:
  assumes "fontFile this = Some p" and "p \<noteq> 0"
    and "IDWriteFontFile_Analyze n p = (h, isSupported, ft, fc, nf)"
  shows "(FAILED h \<longrightarrow>
            Analyze n this refs = (Returned False, refs\<lparr>hr := h\<rparr>, [Ev_Analyze p]))
       \<and> (\<not> FAILED h \<and> isSupported = 0 \<longrightarrow>
            Analyze n this refs =
              (Returned False,
               refs\<lparr>hr := h, fontFileType := ft, fontFaceType := fc, numberOfFaces := nf\<rparr>,
               [Ev_Analyze p]))"
  using assms by (simp add: Analyze_def fontFile_Value_def)

theorem Analyze_failure_policy_witness:
  "Analyze (local_env\<lparr>IDWriteFontFile_Analyze := (\<lambda>p. (E_FAIL, 1, 2, 3, 4))\<rparr>) (FontFile_ctor 1) refs0
     = (Returned False, \<lparr>fontFileType = 7, fontFaceType = 8, numberOfFaces = 9, hr = E_FAIL\<rparr>,
        [Ev_Analyze 1])
   \<and> Analyze (local_env\<lparr>IDWriteFontFile_Analyze := (\<lambda>p. (S_OK, 0, 2, 3, 4))\<rparr>) (FontFile_ctor 1) refs0
     = (Returned False, \<lparr>fontFileType = 2, fontFaceType = 3, numberOfFaces = 4, hr = S_OK\<rparr>,
        [Ev_Analyze 1])"
proof -
  let ?n1 = "local_env\<lparr>IDWriteFontFile_Analyze := (\<lambda>p. (E_FAIL, 1, 2, 3, 4))\<rparr>"
  let ?n2 = "local_env\<lparr>IDWriteFontFile_Analyze := (\<lambda>p. (S_OK, 0, 2, 3, 4))\<rparr>"
  have h: "fontFile (FontFile_ctor 1) = Some 1" "(1::nat) \<noteq> 0"
    by (simp_all add: FontFile_ctor_def)
  have a1: "IDWriteFontFile_Analyze ?n1 1 = (E_FAIL, 1, 2, 3, 4)" by simp
  have a2: "IDWriteFontFile_Analyze ?n2 1 = (S_OK, 0, 2, 3, 4)" by simp
  have f1: "FAILED E_FAIL" by (simp add: FAILED_def E_FAIL_def)
  have f2: "\<not> FAILED S_OK" by (simp add: FAILED_def S_OK_def)
  show ?thesis
    using Analyze_failure_policy [OF h a1, of refs0] Analyze_failure_policy [OF h a2, of refs0] f1 f2
    by (simp add: refs0_def)
qed

text \<open>
  Claim C9. The value \<^verbatim>\<open>Analyze\<close> returns is true exactly when the native status
  indicates success and the native \<^verbatim>\<open>isSupported\<close> flag is not zero; the status
  parameter always receives the native status. Two calls exist that both return false,
  one after a native failure and one after a successful analysis of an unsupported
  file: only the status parameter tells them apart.
\<close>

theorem Analyze_true_iff:
  assumes "fontFile this = Some p" and "p \<noteq> 0"
    and "IDWriteFontFile_Analyze n p = (h, isSupported, ft, fc, nf)"
  shows "fst (Analyze n this refs) = Returned (\<not> FAILED h \<and> isSupported \<noteq> 0)
       \<and> hr (fst (snd (Analyze n this refs))) = h
       \<and> (\<exists>n1 n2 this' refs'.
             fst (Analyze n1 this' refs') = Returned False
           \<and> fst (Analyze n2 this' refs') = Returned False
           \<and> FAILED (hr (fst (snd (Analyze n1 this' refs'))))
           \<and> \<not> FAILED (hr (fst (snd (Analyze n2 this' refs')))))"
proof -
  let ?n1 = "local_env\<lparr>IDWriteFontFile_Analyze := (\<lambda>p. (E_FAIL, 1, 2, 3, 4))\<rparr>"
  let ?n2 = "local_env\<lparr>IDWriteFontFile_Analyze := (\<lambda>p. (S_OK, 0, 2, 3, 4))\<rparr>"
  have "fst (Analyze ?n1 (FontFile_ctor 1) refs0) = Returned False
      \<and> fst (Analyze ?n2 (FontFile_ctor 1) refs0) = Returned False
      \<and> FAILED (hr (fst (snd (Analyze ?n1 (FontFile_ctor 1) refs0))))
      \<and> \<not> FAILED (hr (fst (snd (Analyze ?n2 (FontFile_ctor 1) refs0))))"
    by (simp add: Analyze_def fontFile_Value_def const_defs)
  then have ex: "\<exists>n1 n2 this' refs'.
             fst (Analyze n1 this' refs') = Returned False
           \<and> fst (Analyze n2 this' refs') = Returned False
           \<and> FAILED (hr (fst (snd (Analyze n1 this' refs'))))
           \<and> \<not> FAILED (hr (fst (snd (Analyze n2 this' refs'))))"
    by blast
  have "fst (Analyze n this refs) = Returned (\<not> FAILED h \<and> isSupported \<noteq> 0)
       \<and> hr (fst (snd (Analyze n this refs))) = h"
    using assms by (simp add: Analyze_def fontFile_Value_def)
  with ex show ?thesis by blast
qed

theorem Analyze_true_iff_witness:
  "fst (Analyze local_env (FontFile_ctor 1) refs0) = Returned True
   \<and> fst (Analyze (local_env\<lparr>IDWriteFontFile_Analyze := (\<lambda>p. (S_OK, 0, 2, 3, 4))\<rparr>)
            (FontFile_ctor 1) refs0) = Returned False
   \<and> fst (Analyze (local_env\<lparr>IDWriteFontFile_Analyze := (\<lambda>p. (E_FAIL, 1, 2, 3, 4))\<rparr>)
            (FontFile_ctor 1) refs0) = Returned False"
proof -
  let ?n1 = "local_env\<lparr>IDWriteFontFile_Analyze := (\<lambda>p. (E_FAIL, 1, 2, 3, 4))\<rparr>"
  let ?n2 = "local_env\<lparr>IDWriteFontFile_Analyze := (\<lambda>p. (S_OK, 0, 2, 3, 4))\<rparr>"
  have h: "fontFile (FontFile_ctor 1) = Some 1" "(1::nat) \<noteq> 0"
    by (simp_all add: FontFile_ctor_def)
  have a0: "IDWriteFontFile_Analyze local_env 1 = (S_OK, 1, 2, 3, 4)" by (simp add: local_env_def)
  have a1: "IDWriteFontFile_Analyze ?n1 1 = (E_FAIL, 1, 2, 3, 4)" by simp
  have a2: "IDWriteFontFile_Analyze ?n2 1 = (S_OK, 0, 2, 3, 4)" by simp
  have f1: "FAILED E_FAIL" by (simp add: FAILED_def E_FAIL_def)
  have f2: "\<not> FAILED S_OK" by (simp add: FAILED_def S_OK_def)
  show ?thesis
    using Analyze_true_iff [OF h a0, of refs0] Analyze_true_iff [OF h a1, of refs0]
      Analyze_true_iff [OF h a2, of refs0] f1 f2
    by simp
qed

subsection \<open>Disposal\<close>

text \<open>
  Claim C8. Disposing a handle constructed around a native reference releases that
  reference once and clears the field; disposing it again does nothing at all. On any
  handle disposal returns normally, leaves the field cleared and performs at most one
  native call.
\<close>

theorem Dispose_idempotent:
  assumes "p \<noteq> 0"
  shows "FontFile_dtor (FontFile_ctor p)
           = (Returned (), \<lparr>fontFile = None\<rparr>, [Ev_Release IDWriteFontFile p])
       \<and> FontFile_dtor (fst (snd (FontFile_dtor (FontFile_ctor p))))
           = (Returned (), \<lparr>fontFile = None\<rparr>, [])
       \<and> (\<forall>this. fst (FontFile_dtor this) = Returned ()
              \<and> fontFile (fst (snd (FontFile_dtor this))) = None
              \<and> length (snd (snd (FontFile_dtor this))) \<le> 1)"
  by (simp add: FontFile_dtor_def FontFile_ctor_def delete_NativeIUnknownWrapper_def
      split: option.split)

theorem Dispose_idempotent_witness:
  "FontFile_dtor (FontFile_ctor 1)
     = (Returned (), \<lparr>fontFile = None\<rparr>, [Ev_Release IDWriteFontFile 1])
   \<and> FontFile_dtor (fst (snd (FontFile_dtor (FontFile_ctor 1))))
     = (Returned (), \<lparr>fontFile = None\<rparr>, [])"
proof -
  have "(1::nat) \<noteq> 0" by simp
  from Dispose_idempotent [OF this] show ?thesis by blast
qed

subsection \<open>Operations after disposal\<close>

text \<open>
  Claim C7. After disposal the field is null, and each of \<^verbatim>\<open>Analyze\<close>,
  \<^verbatim>\<open>GetUriPath\<close> and the raw-reference accessor starts with the dereference
  \<^verbatim>\<open>_fontFile->Value\<close>, whose null test stops the operation at once: it raises
  \<^verbatim>\<open>NullReferenceException\<close>, performs no native call and, for
  \<^verbatim>\<open>Analyze\<close>, leaves the by-reference parameters as they were. No operation
  reaches a native dereference with a cleared reference.
\<close>

theorem disposed_handle_fails_fast:
  assumes "fontFile this = None"
  shows "Analyze n this refs = (Raised NullReferenceException, refs, [])
       \<and> GetUriPath n this = (Raised NullReferenceException, [])
       \<and> DWriteFontFileNoAddRef_get this = Raised NullReferenceException"
  using assms
  by (simp add: Analyze_def GetUriPath_def DWriteFontFileNoAddRef_get_def fontFile_Value_def)

theorem disposed_handle_fails_fast_witness:
  "fontFile (fst (snd (FontFile_dtor (FontFile_ctor 1)))) = None
   \<and> Analyze local_env (fst (snd (FontFile_dtor (FontFile_ctor 1)))) refs0
       = (Raised NullReferenceException, refs0, [])
   \<and> GetUriPath local_env (fst (snd (FontFile_dtor (FontFile_ctor 1))))
       = (Raised NullReferenceException, [])
   \<and> DWriteFontFileNoAddRef_get (fst (snd (FontFile_dtor (FontFile_ctor 1))))
       = Raised NullReferenceException"
proof -
  have d: "fontFile (fst (snd (FontFile_dtor (FontFile_ctor 1)))) = None"
    by (simp add: FontFile_dtor_def FontFile_ctor_def)
  from disposed_handle_fails_fast [OF d, of local_env refs0] d show ?thesis by blast
qed

subsection \<open>GetUriPath: failing statuses\<close>

text \<open>
  Claim C1, as the code has it. On a handle that holds a native reference, every
  execution of \<^verbatim>\<open>GetUriPath\<close> is one of the cases below, whatever the
  capability query reported. A failing status at loader retrieval, reference-key
  retrieval (in either branch), path-length retrieval or path retrieval raises an
  error that carries this status and the name of \<^verbatim>\<open>GetUriPath\<close>, the same name at
  all four places; no later native call is made, and only the cleanup of the
  \<^verbatim>\<open>finally\<close> block follows in the local-file branch. The status
  \<^verbatim>\<open>E_NOINTERFACE\<close> of the capability query selects the fallback branch, in
  which nothing is raised once the reference key was retrieved. A step that is not
  reached (null loader, null interface, violated invariant, failed allocation) is not
  called. When all four statuses succeed nothing is raised. Conversely, every status
  error that is raised carries the name of \<^verbatim>\<open>GetUriPath\<close> and the failing
  status of one of the four steps.
\<close>

theorem GetUriPath_failure_policy:
  assumes "fontFile this = Some p" and "p \<noteq> 0"
    and "IDWriteFontFile_GetLoader n p = (h0, fontFileLoader)"
    and "IUnknown_QueryInterface n fontFileLoader guidForIDWriteLocalFontFileLoader
           = (hq, localFontFileLoader)"
    and "IDWriteFontFile_GetReferenceKey n p = (h1, key, ksize)"
    and "GetFilePathLengthFromKey n localFontFileLoader key ksize = (h2, len)"
    and "GetFilePathFromKey n localFontFileLoader key ksize (len + 1) = (h3, buf)"
  shows "(FAILED h0 \<longrightarrow>
            GetUriPath n this
              = (Raised (StatusFailure h0 GetUriPath_context), [Ev_GetLoader p]))
       \<and> (\<not> FAILED h0 \<and> fontFileLoader = 0 \<longrightarrow>
            GetUriPath n this = (Undefined, [Ev_GetLoader p]))
       \<and> (\<not> FAILED h0 \<and> fontFileLoader \<noteq> 0 \<and> hq = E_NOINTERFACE \<and> FAILED h1 \<longrightarrow>
            GetUriPath n this
              = (Raised (StatusFailure h1 GetUriPath_context),
                 [Ev_GetLoader p,
                  Ev_QueryInterface fontFileLoader guidForIDWriteLocalFontFileLoader,
                  Ev_GetReferenceKey p]))
       \<and> (\<not> FAILED h0 \<and> fontFileLoader \<noteq> 0 \<and> hq = E_NOINTERFACE \<and> \<not> FAILED h1 \<longrightarrow>
            (\<forall>e. fst (GetUriPath n this) \<noteq> Raised e)
            \<and> snd (GetUriPath n this)
              = [Ev_GetLoader p,
                 Ev_QueryInterface fontFileLoader guidForIDWriteLocalFontFileLoader,
                 Ev_GetReferenceKey p])
       \<and> (\<not> FAILED h0 \<and> fontFileLoader \<noteq> 0 \<and> hq \<noteq> E_NOINTERFACE \<and> FAILED h1 \<longrightarrow>
            GetUriPath n this
              = (Raised (StatusFailure h1 GetUriPath_context),
                 [Ev_GetLoader p,
                  Ev_QueryInterface fontFileLoader guidForIDWriteLocalFontFileLoader,
                  Ev_GetReferenceKey p]
                 @ (if localFontFileLoader \<noteq> 0
                    then [Ev_Release IDWriteLocalFontFileLoader localFontFileLoader]
                    else [])))
       \<and> (\<not> FAILED h0 \<and> fontFileLoader \<noteq> 0 \<and> hq \<noteq> E_NOINTERFACE \<and> \<not> FAILED h1
            \<and> localFontFileLoader = 0 \<longrightarrow>
            GetUriPath n this
              = (Undefined,
                 [Ev_GetLoader p,
                  Ev_QueryInterface fontFileLoader guidForIDWriteLocalFontFileLoader,
                  Ev_GetReferenceKey p]))
       \<and> (\<not> FAILED h0 \<and> fontFileLoader \<noteq> 0 \<and> hq \<noteq> E_NOINTERFACE \<and> \<not> FAILED h1
            \<and> localFontFileLoader \<noteq> 0 \<and> FAILED h2 \<longrightarrow>
            GetUriPath n this
              = (Raised (StatusFailure h2 GetUriPath_context),
                 [Ev_GetLoader p,
                  Ev_QueryInterface fontFileLoader guidForIDWriteLocalFontFileLoader,
                  Ev_GetReferenceKey p,
                  Ev_GetFilePathLengthFromKey localFontFileLoader key ksize,
                  Ev_Release IDWriteLocalFontFileLoader localFontFileLoader]))
       \<and> (\<not> FAILED h0 \<and> fontFileLoader \<noteq> 0 \<and> hq \<noteq> E_NOINTERFACE \<and> \<not> FAILED h1
            \<and> localFontFileLoader \<noteq> 0 \<and> \<not> FAILED h2 \<and> len = UINT_MAX \<longrightarrow>
            GetUriPath n this
              = (FailFast,
                 [Ev_GetLoader p,
                  Ev_QueryInterface fontFileLoader guidForIDWriteLocalFontFileLoader,
                  Ev_GetReferenceKey p,
                  Ev_GetFilePathLengthFromKey localFontFileLoader key ksize]))
       \<and> (\<not> FAILED h0 \<and> fontFileLoader \<noteq> 0 \<and> hq \<noteq> E_NOINTERFACE \<and> \<not> FAILED h1
            \<and> localFontFileLoader \<noteq> 0 \<and> \<not> FAILED h2 \<and> len \<noteq> UINT_MAX
            \<and> \<not> operator_new n (len + 1) \<longrightarrow>
            GetUriPath n this
              = (Raised OutOfMemoryException,
                 [Ev_GetLoader p,
                  Ev_QueryInterface fontFileLoader guidForIDWriteLocalFontFileLoader,
                  Ev_GetReferenceKey p,
                  Ev_GetFilePathLengthFromKey localFontFileLoader key ksize,
                  Ev_Release IDWriteLocalFontFileLoader localFontFileLoader]))
       \<and> (\<not> FAILED h0 \<and> fontFileLoader \<noteq> 0 \<and> hq \<noteq> E_NOINTERFACE \<and> \<not> FAILED h1
            \<and> localFontFileLoader \<noteq> 0 \<and> \<not> FAILED h2 \<and> len \<noteq> UINT_MAX
            \<and> operator_new n (len + 1) \<and> FAILED h3 \<longrightarrow>
            GetUriPath n this
              = (Raised (StatusFailure h3 GetUriPath_context),
                 [Ev_GetLoader p,
                  Ev_QueryInterface fontFileLoader guidForIDWriteLocalFontFileLoader,
                  Ev_GetReferenceKey p,
                  Ev_GetFilePathLengthFromKey localFontFileLoader key ksize,
                  Ev_new_WCHAR (len + 1),
                  Ev_GetFilePathFromKey localFontFileLoader key ksize (len + 1),
                  Ev_Release IDWriteLocalFontFileLoader localFontFileLoader,
                  Ev_delete_WCHAR]))
       \<and> (\<not> FAILED h0 \<and> fontFileLoader \<noteq> 0 \<and> hq \<noteq> E_NOINTERFACE \<and> \<not> FAILED h1
            \<and> localFontFileLoader \<noteq> 0 \<and> \<not> FAILED h2 \<and> len \<noteq> UINT_MAX
            \<and> operator_new n (len + 1) \<and> \<not> FAILED h3 \<longrightarrow>
            (\<forall>e. fst (GetUriPath n this) \<noteq> Raised e)
            \<and> snd (GetUriPath n this)
              = [Ev_GetLoader p,
                 Ev_QueryInterface fontFileLoader guidForIDWriteLocalFontFileLoader,
                 Ev_GetReferenceKey p,
                 Ev_GetFilePathLengthFromKey localFontFileLoader key ksize,
                 Ev_new_WCHAR (len + 1),
                 Ev_GetFilePathFromKey localFontFileLoader key ksize (len + 1)]
                @ (if fst (GetUriPath n this) = Undefined then []
                   else [Ev_Release IDWriteLocalFontFileLoader localFontFileLoader,
                         Ev_delete_WCHAR]))
       \<and> (\<forall>h c. fst (GetUriPath n this) = Raised (StatusFailure h c) \<longrightarrow>
            c = GetUriPath_context \<and> FAILED h \<and> (h = h0 \<or> h = h1 \<or> h = h2 \<or> h = h3))"
proof -
  have c1: "(FAILED h0 \<longrightarrow>
            GetUriPath n this
              = (Raised (StatusFailure h0 GetUriPath_context), [Ev_GetLoader p]))"
    using assms(1-3) by (simp add: GetUriPath_defs)
  have c2: "(\<not> FAILED h0 \<and> fontFileLoader = 0 \<longrightarrow>
            GetUriPath n this = (Undefined, [Ev_GetLoader p]))"
    using assms(1-3) by (simp add: GetUriPath_defs)
  have c3: "(\<not> FAILED h0 \<and> fontFileLoader \<noteq> 0 \<and> hq = E_NOINTERFACE \<and> FAILED h1 \<longrightarrow>
            GetUriPath n this
              = (Raised (StatusFailure h1 GetUriPath_context),
                 [Ev_GetLoader p,
                  Ev_QueryInterface fontFileLoader guidForIDWriteLocalFontFileLoader,
                  Ev_GetReferenceKey p]))"
    using assms(1-5) by (simp add: GetUriPath_defs)
  have c4: "(\<not> FAILED h0 \<and> fontFileLoader \<noteq> 0 \<and> hq = E_NOINTERFACE \<and> \<not> FAILED h1 \<longrightarrow>
            (\<forall>e. fst (GetUriPath n this) \<noteq> Raised e)
            \<and> snd (GetUriPath n this)
              = [Ev_GetLoader p,
                 Ev_QueryInterface fontFileLoader guidForIDWriteLocalFontFileLoader,
                 Ev_GetReferenceKey p])"
    using assms(1-5) by (simp add: GetUriPath_defs split: option.splits)
  have c5: "(\<not> FAILED h0 \<and> fontFileLoader \<noteq> 0 \<and> hq \<noteq> E_NOINTERFACE \<and> FAILED h1 \<longrightarrow>
            GetUriPath n this
              = (Raised (StatusFailure h1 GetUriPath_context),
                 [Ev_GetLoader p,
                  Ev_QueryInterface fontFileLoader guidForIDWriteLocalFontFileLoader,
                  Ev_GetReferenceKey p]
                 @ (if localFontFileLoader \<noteq> 0
                    then [Ev_Release IDWriteLocalFontFileLoader localFontFileLoader]
                    else [])))"
    using assms(1-5) by (simp add: GetUriPath_defs)
  have c6: "(\<not> FAILED h0 \<and> fontFileLoader \<noteq> 0 \<and> hq \<noteq> E_NOINTERFACE \<and> \<not> FAILED h1
            \<and> localFontFileLoader = 0 \<longrightarrow>
            GetUriPath n this
              = (Undefined,
                 [Ev_GetLoader p,
                  Ev_QueryInterface fontFileLoader guidForIDWriteLocalFontFileLoader,
                  Ev_GetReferenceKey p]))"
    using assms(1-5) by (simp add: GetUriPath_defs)
  have c7: "(\<not> FAILED h0 \<and> fontFileLoader \<noteq> 0 \<and> hq \<noteq> E_NOINTERFACE \<and> \<not> FAILED h1
            \<and> localFontFileLoader \<noteq> 0 \<and> FAILED h2 \<longrightarrow>
            GetUriPath n this
              = (Raised (StatusFailure h2 GetUriPath_context),
                 [Ev_GetLoader p,
                  Ev_QueryInterface fontFileLoader guidForIDWriteLocalFontFileLoader,
                  Ev_GetReferenceKey p,
                  Ev_GetFilePathLengthFromKey localFontFileLoader key ksize,
                  Ev_Release IDWriteLocalFontFileLoader localFontFileLoader]))"
    using assms(1-6) by (simp add: GetUriPath_defs)
  have c8: "(\<not> FAILED h0 \<and> fontFileLoader \<noteq> 0 \<and> hq \<noteq> E_NOINTERFACE \<and> \<not> FAILED h1
            \<and> localFontFileLoader \<noteq> 0 \<and> \<not> FAILED h2 \<and> len = UINT_MAX \<longrightarrow>
            GetUriPath n this
              = (FailFast,
                 [Ev_GetLoader p,
                  Ev_QueryInterface fontFileLoader guidForIDWriteLocalFontFileLoader,
                  Ev_GetReferenceKey p,
                  Ev_GetFilePathLengthFromKey localFontFileLoader key ksize]))"
    using assms(1-6) by (simp add: GetUriPath_defs)
  have c9: "(\<not> FAILED h0 \<and> fontFileLoader \<noteq> 0 \<and> hq \<noteq> E_NOINTERFACE \<and> \<not> FAILED h1
            \<and> localFontFileLoader \<noteq> 0 \<and> \<not> FAILED h2 \<and> len \<noteq> UINT_MAX
            \<and> \<not> operator_new n (len + 1) \<longrightarrow>
            GetUriPath n this
              = (Raised OutOfMemoryException,
                 [Ev_GetLoader p,
                  Ev_QueryInterface fontFileLoader guidForIDWriteLocalFontFileLoader,
                  Ev_GetReferenceKey p,
                  Ev_GetFilePathLengthFromKey localFontFileLoader key ksize,
                  Ev_Release IDWriteLocalFontFileLoader localFontFileLoader]))"
    using assms(1-6) by (simp add: GetUriPath_defs below_UINT_MAX)
  have c10: "(\<not> FAILED h0 \<and> fontFileLoader \<noteq> 0 \<and> hq \<noteq> E_NOINTERFACE \<and> \<not> FAILED h1
            \<and> localFontFileLoader \<noteq> 0 \<and> \<not> FAILED h2 \<and> len \<noteq> UINT_MAX
            \<and> operator_new n (len + 1) \<and> FAILED h3 \<longrightarrow>
            GetUriPath n this
              = (Raised (StatusFailure h3 GetUriPath_context),
                 [Ev_GetLoader p,
                  Ev_QueryInterface fontFileLoader guidForIDWriteLocalFontFileLoader,
                  Ev_GetReferenceKey p,
                  Ev_GetFilePathLengthFromKey localFontFileLoader key ksize,
                  Ev_new_WCHAR (len + 1),
                  Ev_GetFilePathFromKey localFontFileLoader key ksize (len + 1),
                  Ev_Release IDWriteLocalFontFileLoader localFontFileLoader,
                  Ev_delete_WCHAR]))"
    using assms by (simp add: GetUriPath_defs below_UINT_MAX)
  have c11: "(\<not> FAILED h0 \<and> fontFileLoader \<noteq> 0 \<and> hq \<noteq> E_NOINTERFACE \<and> \<not> FAILED h1
            \<and> localFontFileLoader \<noteq> 0 \<and> \<not> FAILED h2 \<and> len \<noteq> UINT_MAX
            \<and> operator_new n (len + 1) \<and> \<not> FAILED h3 \<longrightarrow>
            (\<forall>e. fst (GetUriPath n this) \<noteq> Raised e)
            \<and> snd (GetUriPath n this)
              = [Ev_GetLoader p,
                 Ev_QueryInterface fontFileLoader guidForIDWriteLocalFontFileLoader,
                 Ev_GetReferenceKey p,
                 Ev_GetFilePathLengthFromKey localFontFileLoader key ksize,
                 Ev_new_WCHAR (len + 1),
                 Ev_GetFilePathFromKey localFontFileLoader key ksize (len + 1)]
                @ (if fst (GetUriPath n this) = Undefined then []
                   else [Ev_Release IDWriteLocalFontFileLoader localFontFileLoader,
                         Ev_delete_WCHAR]))"
    using assms by (simp add: GetUriPath_defs Let_def below_UINT_MAX split: option.splits)
  have c12: "(\<forall>h c. fst (GetUriPath n this) = Raised (StatusFailure h c) \<longrightarrow>
            c = GetUriPath_context \<and> FAILED h \<and> (h = h0 \<or> h = h1 \<or> h = h2 \<or> h = h3))"
    using assms
    by (auto simp add: GetUriPath_defs Let_def
        split: option.splits prod.splits if_splits outcome.splits)
  show ?thesis
    by (intro conjI) (fact c1 c2 c3 c4 c5 c6 c7 c8 c9 c10 c11 c12)+
qed

theorem GetUriPath_failure_policy_witness:
  "GetUriPath (local_env\<lparr>IDWriteFontFile_GetLoader := (\<lambda>p. (E_FAIL, 0))\<rparr>) (FontFile_ctor 1)
     = (Raised (StatusFailure E_FAIL GetUriPath_context), [Ev_GetLoader 1])
   \<and> GetUriPath (local_env\<lparr>IDWriteFontFile_GetReferenceKey := (\<lambda>p. (E_FAIL, 0, 0))\<rparr>)
       (FontFile_ctor 1)
     = (Raised (StatusFailure E_FAIL GetUriPath_context),
        [Ev_GetLoader 1, Ev_QueryInterface 10 guidForIDWriteLocalFontFileLoader,
         Ev_GetReferenceKey 1, Ev_Release IDWriteLocalFontFileLoader 30])
   \<and> GetUriPath (local_env\<lparr>GetFilePathLengthFromKey := (\<lambda>l k s. (E_FAIL, 0))\<rparr>)
       (FontFile_ctor 1)
     = (Raised (StatusFailure E_FAIL GetUriPath_context),
        [Ev_GetLoader 1, Ev_QueryInterface 10 guidForIDWriteLocalFontFileLoader,
         Ev_GetReferenceKey 1, Ev_GetFilePathLengthFromKey 30 20 6,
         Ev_Release IDWriteLocalFontFileLoader 30])
   \<and> GetUriPath (local_env\<lparr>GetFilePathFromKey := (\<lambda>l k s c. (E_FAIL, []))\<rparr>)
       (FontFile_ctor 1)
     = (Raised (StatusFailure E_FAIL GetUriPath_context),
        [Ev_GetLoader 1, Ev_QueryInterface 10 guidForIDWriteLocalFontFileLoader,
         Ev_GetReferenceKey 1, Ev_GetFilePathLengthFromKey 30 20 6, Ev_new_WCHAR 3,
         Ev_GetFilePathFromKey 30 20 6 3, Ev_Release IDWriteLocalFontFileLoader 30,
         Ev_delete_WCHAR])"
proof -
  let ?n0 = "local_env\<lparr>IDWriteFontFile_GetLoader := (\<lambda>p. (E_FAIL, 0))\<rparr>"
  let ?n1 = "local_env\<lparr>IDWriteFontFile_GetReferenceKey := (\<lambda>p. (E_FAIL, 0, 0))\<rparr>"
  let ?n2 = "local_env\<lparr>GetFilePathLengthFromKey := (\<lambda>l k s. (E_FAIL, 0))\<rparr>"
  let ?n3 = "local_env\<lparr>GetFilePathFromKey := (\<lambda>l k s c. (E_FAIL, []))\<rparr>"
  have h: "fontFile (FontFile_ctor 1) = Some 1" "(1::nat) \<noteq> 0"
    by (simp_all add: FontFile_ctor_def)
  have ni: "S_OK \<noteq> E_NOINTERFACE" by (simp add: S_OK_def E_NOINTERFACE_def)
  have l: "(10::nat) \<noteq> 0" and w: "(30::nat) \<noteq> 0" by simp_all
  have m: "(2::UINT32) \<noteq> UINT_MAX" by (simp add: UINT_MAX_def)
  have gl0: "IDWriteFontFile_GetLoader ?n0 1 = (E_FAIL, 0)"
    and qi0: "IUnknown_QueryInterface ?n0 0 guidForIDWriteLocalFontFileLoader = (S_OK, 30)"
    and rk0: "IDWriteFontFile_GetReferenceKey ?n0 1 = (S_OK, 20, 6)"
    and ln0: "GetFilePathLengthFromKey ?n0 30 20 6 = (S_OK, 2)"
    and pa0: "GetFilePathFromKey ?n0 30 20 6 (2 + 1) = (S_OK, [0x43, 0x3A, 0])"
    by (simp_all add: local_env_def)
  have gl1: "IDWriteFontFile_GetLoader ?n1 1 = (S_OK, 10)"
    and qi1: "IUnknown_QueryInterface ?n1 10 guidForIDWriteLocalFontFileLoader = (S_OK, 30)"
    and rk1: "IDWriteFontFile_GetReferenceKey ?n1 1 = (E_FAIL, 0, 0)"
    and ln1: "GetFilePathLengthFromKey ?n1 30 0 0 = (S_OK, 2)"
    and pa1: "GetFilePathFromKey ?n1 30 0 0 (2 + 1) = (S_OK, [0x43, 0x3A, 0])"
    by (simp_all add: local_env_def)
  have gl2: "IDWriteFontFile_GetLoader ?n2 1 = (S_OK, 10)"
    and qi2: "IUnknown_QueryInterface ?n2 10 guidForIDWriteLocalFontFileLoader = (S_OK, 30)"
    and rk2: "IDWriteFontFile_GetReferenceKey ?n2 1 = (S_OK, 20, 6)"
    and ln2: "GetFilePathLengthFromKey ?n2 30 20 6 = (E_FAIL, 0)"
    and pa2: "GetFilePathFromKey ?n2 30 20 6 (0 + 1) = (S_OK, [0x43, 0x3A, 0])"
    by (simp_all add: local_env_def)
  have gl3: "IDWriteFontFile_GetLoader ?n3 1 = (S_OK, 10)"
    and qi3: "IUnknown_QueryInterface ?n3 10 guidForIDWriteLocalFontFileLoader = (S_OK, 30)"
    and rk3: "IDWriteFontFile_GetReferenceKey ?n3 1 = (S_OK, 20, 6)"
    and ln3: "GetFilePathLengthFromKey ?n3 30 20 6 = (S_OK, 2)"
    and pa3: "GetFilePathFromKey ?n3 30 20 6 (2 + 1) = (E_FAIL, [])"
    and on3: "operator_new ?n3 (2 + 1)"
    by (simp_all add: local_env_def)
  have w0: "GetUriPath ?n0 (FontFile_ctor 1)
     = (Raised (StatusFailure E_FAIL GetUriPath_context), [Ev_GetLoader 1])"
    using GetUriPath_failure_policy [OF h gl0 qi0 rk0 ln0 pa0] FAILED_E_FAIL by blast
  have "GetUriPath ?n1 (FontFile_ctor 1)
     = (Raised (StatusFailure E_FAIL GetUriPath_context),
        [Ev_GetLoader 1, Ev_QueryInterface 10 guidForIDWriteLocalFontFileLoader,
         Ev_GetReferenceKey 1]
        @ (if (30::nat) \<noteq> 0 then [Ev_Release IDWriteLocalFontFileLoader 30] else []))"
    using GetUriPath_failure_policy [OF h gl1 qi1 rk1 ln1 pa1]
      FAILED_E_FAIL not_FAILED_S_OK ni l by blast
  then have w1: "GetUriPath ?n1 (FontFile_ctor 1)
     = (Raised (StatusFailure E_FAIL GetUriPath_context),
        [Ev_GetLoader 1, Ev_QueryInterface 10 guidForIDWriteLocalFontFileLoader,
         Ev_GetReferenceKey 1, Ev_Release IDWriteLocalFontFileLoader 30])"
    by simp
  have w2: "GetUriPath ?n2 (FontFile_ctor 1)
     = (Raised (StatusFailure E_FAIL GetUriPath_context),
        [Ev_GetLoader 1, Ev_QueryInterface 10 guidForIDWriteLocalFontFileLoader,
         Ev_GetReferenceKey 1, Ev_GetFilePathLengthFromKey 30 20 6,
         Ev_Release IDWriteLocalFontFileLoader 30])"
    using GetUriPath_failure_policy [OF h gl2 qi2 rk2 ln2 pa2]
      FAILED_E_FAIL not_FAILED_S_OK ni l w by blast
  have "GetUriPath ?n3 (FontFile_ctor 1)
     = (Raised (StatusFailure E_FAIL GetUriPath_context),
        [Ev_GetLoader 1, Ev_QueryInterface 10 guidForIDWriteLocalFontFileLoader,
         Ev_GetReferenceKey 1, Ev_GetFilePathLengthFromKey 30 20 6, Ev_new_WCHAR (2 + 1),
         Ev_GetFilePathFromKey 30 20 6 (2 + 1), Ev_Release IDWriteLocalFontFileLoader 30,
         Ev_delete_WCHAR])"
    using GetUriPath_failure_policy [OF h gl3 qi3 rk3 ln3 pa3]
      FAILED_E_FAIL not_FAILED_S_OK ni l w m on3 by blast
  then have w3: "GetUriPath ?n3 (FontFile_ctor 1)
     = (Raised (StatusFailure E_FAIL GetUriPath_context),
        [Ev_GetLoader 1, Ev_QueryInterface 10 guidForIDWriteLocalFontFileLoader,
         Ev_GetReferenceKey 1, Ev_GetFilePathLengthFromKey 30 20 6, Ev_new_WCHAR 3,
         Ev_GetFilePathFromKey 30 20 6 3, Ev_Release IDWriteLocalFontFileLoader 30,
         Ev_delete_WCHAR])"
    by simp
  from w0 w1 w2 w3 show ?thesis by blast
qed

text \<open>
  Claim C1 as stated fails. The raised error does not identify the step: a failure of
  the loader retrieval and a failure of the path retrieval with the same status raise
  the same error. And a step does run on what a failed step produced: the status of
  the capability query is compared with \<^verbatim>\<open>E_NOINTERFACE\<close> only, so after any
  other failing status the local-file branch calls the path-length and path retrieval
  on the interface pointer that the failed query left behind.
\<close>

theorem GetUriPath_error_names_no_step:
  "GetUriPath (local_env\<lparr>IDWriteFontFile_GetLoader := (\<lambda>p. (E_FAIL, 0))\<rparr>) (FontFile_ctor 1)
     = (Raised (StatusFailure E_FAIL GetUriPath_context), [Ev_GetLoader 1])
   \<and> GetUriPath (local_env\<lparr>GetFilePathFromKey := (\<lambda>l k s c. (E_FAIL, []))\<rparr>) (FontFile_ctor 1)
     = (Raised (StatusFailure E_FAIL GetUriPath_context),
        [Ev_GetLoader 1, Ev_QueryInterface 10 guidForIDWriteLocalFontFileLoader,
         Ev_GetReferenceKey 1, Ev_GetFilePathLengthFromKey 30 20 6, Ev_new_WCHAR 3,
         Ev_GetFilePathFromKey 30 20 6 3, Ev_Release IDWriteLocalFontFileLoader 30,
         Ev_delete_WCHAR])
   \<and> FAILED E_FAIL
   \<and> GetUriPath (local_env\<lparr>IUnknown_QueryInterface := (\<lambda>p g. (E_FAIL, 30))\<rparr>) (FontFile_ctor 1)
     = (Returned [0x43, 0x3A],
        [Ev_GetLoader 1, Ev_QueryInterface 10 guidForIDWriteLocalFontFileLoader,
         Ev_GetReferenceKey 1, Ev_GetFilePathLengthFromKey 30 20 6, Ev_new_WCHAR 3,
         Ev_GetFilePathFromKey 30 20 6 3, Ev_Release IDWriteLocalFontFileLoader 30,
         Ev_delete_WCHAR])"
  by (simp add: run_defs)

text \<open>
  When the failed capability query leaves a null interface pointer, as the COM rules
  ask of a failing query, the local-file branch calls through that null pointer.
\<close>

lemma GetUriPath_query_failure_null:
  "GetUriPath (local_env\<lparr>IUnknown_QueryInterface := (\<lambda>p g. (E_FAIL, 0))\<rparr>) (FontFile_ctor 1)
     = (Undefined,
        [Ev_GetLoader 1, Ev_QueryInterface 10 guidForIDWriteLocalFontFileLoader,
         Ev_GetReferenceKey 1])"
  by (simp add: run_defs)

subsection \<open>GetUriPath: the fallback branch\<close>

text \<open>
  Claim C2. When the capability query reports \<^verbatim>\<open>E_NOINTERFACE\<close>, the only
  further native call is the retrieval of the reference key: neither local-file
  operation is invoked and nothing is released. Once the key is retrieved, the memory
  at the key is read directly as wide characters up to the first terminator and
  returned as it is (the empty string for a null key), and nothing is raised. A failing
  status of the key retrieval itself is raised, as at every other retrieval of the key.
\<close>

theorem GetUriPath_fallback_branch:
  assumes "fontFile this = Some p" and "p \<noteq> 0"
    and "IDWriteFontFile_GetLoader n p = (h0, fontFileLoader)"
    and "\<not> FAILED h0" and "fontFileLoader \<noteq> 0"
    and "IUnknown_QueryInterface n fontFileLoader guidForIDWriteLocalFontFileLoader
           = (E_NOINTERFACE, q)"
    and "IDWriteFontFile_GetReferenceKey n p = (h1, key, ksize)"
  shows "snd (GetUriPath n this)
           = [Ev_GetLoader p, Ev_QueryInterface fontFileLoader guidForIDWriteLocalFontFileLoader,
              Ev_GetReferenceKey p]
       \<and> (FAILED h1 \<longrightarrow>
            fst (GetUriPath n this) = Raised (StatusFailure h1 GetUriPath_context))
       \<and> (\<not> FAILED h1 \<and> key \<noteq> 0 \<and> 0 \<in> set (wchars_of_bytes (memory n key)) \<longrightarrow>
            fst (GetUriPath n this)
              = Returned (takeWhile (\<lambda>c. c \<noteq> 0) (wchars_of_bytes (memory n key))))
       \<and> (\<not> FAILED h1 \<and> key = 0 \<longrightarrow> fst (GetUriPath n this) = Returned [])
       \<and> (\<not> FAILED h1 \<longrightarrow> (\<forall>e. fst (GetUriPath n this) \<noteq> Raised e))"
  using assms
  by (auto simp add: GetUriPath_defs String_at_def String_of_wchars_def
      split: option.splits prod.splits if_splits)

theorem GetUriPath_fallback_branch_witness:
  "GetUriPath (local_env\<lparr>IUnknown_QueryInterface := (\<lambda>p g. (E_NOINTERFACE, 0))\<rparr>)
     (FontFile_ctor 1)
   = (Returned [0x43, 0x3A],
      [Ev_GetLoader 1, Ev_QueryInterface 10 guidForIDWriteLocalFontFileLoader,
       Ev_GetReferenceKey 1])"
proof -
  let ?n = "local_env\<lparr>IUnknown_QueryInterface := (\<lambda>p g. (E_NOINTERFACE, 0))\<rparr>"
  have h: "fontFile (FontFile_ctor 1) = Some 1" "(1::nat) \<noteq> 0"
    by (simp_all add: FontFile_ctor_def)
  have gl: "IDWriteFontFile_GetLoader ?n 1 = (S_OK, 10)" by (simp add: local_env_def)
  have l: "(10::nat) \<noteq> 0" by simp
  have qi: "IUnknown_QueryInterface ?n 10 guidForIDWriteLocalFontFileLoader = (E_NOINTERFACE, 0)"
    by simp
  have rk: "IDWriteFontFile_GetReferenceKey ?n 1 = (S_OK, 20, 6)" by (simp add: local_env_def)
  have m: "wchars_of_bytes (memory ?n 20) = [0x43, 0x3A, 0]" by (simp add: local_env_def)
  have k: "(20::nat) \<noteq> 0" by simp
  from GetUriPath_fallback_branch [OF h gl not_FAILED_S_OK l qi rk] not_FAILED_S_OK m k
  show ?thesis by (simp add: prod_eq_iff)
qed

text \<open>
  A run of the fallback branch in which the retrieval of the reference key fails.
\<close>

lemma GetUriPath_fallback_key_failure:
  "GetUriPath
     (local_env\<lparr>IUnknown_QueryInterface := (\<lambda>p g. (E_NOINTERFACE, 0)),
                 IDWriteFontFile_GetReferenceKey := (\<lambda>p. (E_FAIL, 0, 0))\<rparr>)
     (FontFile_ctor 1)
   = (Raised (StatusFailure E_FAIL GetUriPath_context),
      [Ev_GetLoader 1, Ev_QueryInterface 10 guidForIDWriteLocalFontFileLoader,
       Ev_GetReferenceKey 1])"
  by (simp add: run_defs)

subsection \<open>GetUriPath: cleanup\<close>

text \<open>
  Claim C3. Once the capability query was made, on every path on which
  \<^verbatim>\<open>GetUriPath\<close> returns or raises: if the query did not report
  \<^verbatim>\<open>E_NOINTERFACE\<close> and gave an interface, that interface is released exactly once
  and nothing else is released; if it reported \<^verbatim>\<open>E_NOINTERFACE\<close>, nothing is
  released or allocated; the path buffer is allocated at most once and freed exactly
  as often as it was allocated. The release helper does nothing on a null reference
  and otherwise releases and clears it.
\<close>

theorem GetUriPath_cleanup_exactly_once:
  assumes "fontFile this = Some p" and "p \<noteq> 0"
    and "IDWriteFontFile_GetLoader n p = (h0, fontFileLoader)"
    and "\<not> FAILED h0" and "fontFileLoader \<noteq> 0"
    and "IUnknown_QueryInterface n fontFileLoader guidForIDWriteLocalFontFileLoader
           = (hq, localFontFileLoader)"
    and "GetUriPath n this = (r, t)" and "r \<noteq> FailFast" and "r \<noteq> Undefined"
  shows "(hq \<noteq> E_NOINTERFACE \<and> localFontFileLoader \<noteq> 0 \<longrightarrow>
            count_list t (Ev_Release IDWriteLocalFontFileLoader localFontFileLoader) = 1
          \<and> length (filter is_Release t) = 1)
       \<and> (hq = E_NOINTERFACE \<longrightarrow> filter is_Release t = [] \<and> filter is_new_WCHAR t = [])
       \<and> count_list t Ev_delete_WCHAR = length (filter is_new_WCHAR t)
       \<and> length (filter is_new_WCHAR t) \<le> 1
       \<and> ReleaseInterface (Some 0) = (Some 0, [])
       \<and> (localFontFileLoader \<noteq> 0 \<longrightarrow>
            ReleaseInterface (Some localFontFileLoader)
              = (Some 0, [Ev_Release IDWriteLocalFontFileLoader localFontFileLoader]))"
  using assms
  by (auto simp add: GetUriPath_defs Let_def split: option.splits prod.splits if_splits outcome.splits)

theorem GetUriPath_cleanup_exactly_once_witness:
  "count_list (snd (GetUriPath local_env (FontFile_ctor 1)))
     (Ev_Release IDWriteLocalFontFileLoader 30) = 1
   \<and> length (filter is_Release (snd (GetUriPath local_env (FontFile_ctor 1)))) = 1
   \<and> count_list (snd (GetUriPath local_env (FontFile_ctor 1))) Ev_delete_WCHAR
       = length (filter is_new_WCHAR (snd (GetUriPath local_env (FontFile_ctor 1))))
   \<and> count_list
       (snd (GetUriPath (local_env\<lparr>IDWriteFontFile_GetReferenceKey := (\<lambda>p. (E_FAIL, 0, 0))\<rparr>)
          (FontFile_ctor 1)))
       (Ev_Release IDWriteLocalFontFileLoader 30) = 1
   \<and> fst (GetUriPath local_env (FontFile_ctor 1)) = Returned [0x43, 0x3A]
   \<and> fst (GetUriPath (local_env\<lparr>IDWriteFontFile_GetReferenceKey := (\<lambda>p. (E_FAIL, 0, 0))\<rparr>)
          (FontFile_ctor 1))
       = Raised (StatusFailure E_FAIL GetUriPath_context)"
proof -
  let ?n1 = "local_env\<lparr>IDWriteFontFile_GetReferenceKey := (\<lambda>p. (E_FAIL, 0, 0))\<rparr>"
  have h: "fontFile (FontFile_ctor 1) = Some 1" "(1::nat) \<noteq> 0"
    by (simp_all add: FontFile_ctor_def)
  have l: "(10::nat) \<noteq> 0" by simp
  have gl: "IDWriteFontFile_GetLoader local_env 1 = (S_OK, 10)"
    and qi: "IUnknown_QueryInterface local_env 10 guidForIDWriteLocalFontFileLoader = (S_OK, 30)"
    by (simp_all add: local_env_def)
  have gl1: "IDWriteFontFile_GetLoader ?n1 1 = (S_OK, 10)"
    and qi1: "IUnknown_QueryInterface ?n1 10 guidForIDWriteLocalFontFileLoader = (S_OK, 30)"
    by (simp_all add: local_env_def)
  have r0: "fst (GetUriPath local_env (FontFile_ctor 1)) = Returned [0x43, 0x3A]"
    by (simp add: run_defs)
  have r1: "fst (GetUriPath ?n1 (FontFile_ctor 1))
              = Raised (StatusFailure E_FAIL GetUriPath_context)"
    by (simp add: run_defs)
  have run: "GetUriPath local_env (FontFile_ctor 1)
               = (fst (GetUriPath local_env (FontFile_ctor 1)),
                  snd (GetUriPath local_env (FontFile_ctor 1)))"
    and run1: "GetUriPath ?n1 (FontFile_ctor 1)
               = (fst (GetUriPath ?n1 (FontFile_ctor 1)), snd (GetUriPath ?n1 (FontFile_ctor 1)))"
    by simp_all
  have ok: "fst (GetUriPath local_env (FontFile_ctor 1)) \<noteq> FailFast"
    "fst (GetUriPath local_env (FontFile_ctor 1)) \<noteq> Undefined"
    by (simp_all only: r0) simp_all
  have ok1: "fst (GetUriPath ?n1 (FontFile_ctor 1)) \<noteq> FailFast"
    "fst (GetUriPath ?n1 (FontFile_ctor 1)) \<noteq> Undefined"
    by (simp_all only: r1) simp_all
  have ni: "S_OK \<noteq> E_NOINTERFACE" by (simp add: S_OK_def E_NOINTERFACE_def)
  have w: "(30::nat) \<noteq> 0" by simp
  from GetUriPath_cleanup_exactly_once [OF h gl not_FAILED_S_OK l qi run ok]
    GetUriPath_cleanup_exactly_once [OF h gl1 not_FAILED_S_OK l qi1 run1 ok1] ni w r0 r1
  show ?thesis by blast
qed

text \<open>
  Claim C10. No trace of \<^verbatim>\<open>GetUriPath\<close> holds a release through the loader
  interface that \<^verbatim>\<open>GetLoader\<close> gave, nor one of the font file. At most one
  release happens at all, and it is the release, through the local-file interface, of the
  pointer the capability query gave, on a path where the query did not report
  \<^verbatim>\<open>E_NOINTERFACE\<close>.
\<close>

theorem GetUriPath_never_releases_loader:
  "Ev_Release IDWriteFontFileLoader q \<notin> set (snd (GetUriPath n this))
   \<and> Ev_Release IDWriteFontFile q \<notin> set (snd (GetUriPath n this))
   \<and> length (filter is_Release (snd (GetUriPath n this))) \<le> 1
   \<and> (Ev_Release i q \<in> set (snd (GetUriPath n this)) \<longrightarrow>
        i = IDWriteLocalFontFileLoader
        \<and> (\<exists>p. fontFile this = Some p
               \<and> IUnknown_QueryInterface n (snd (IDWriteFontFile_GetLoader n p))
                    guidForIDWriteLocalFontFileLoader = 
                  (fst (IUnknown_QueryInterface n (snd (IDWriteFontFile_GetLoader n p))
                    guidForIDWriteLocalFontFileLoader), q)
               \<and> fst (IUnknown_QueryInterface n (snd (IDWriteFontFile_GetLoader n p))
                    guidForIDWriteLocalFontFileLoader) \<noteq> E_NOINTERFACE))"
  by (auto simp add: GetUriPath_defs Let_def split: option.splits prod.splits if_splits outcome.splits)

theorem GetUriPath_never_releases_loader_witness:
  "Ev_Release IDWriteLocalFontFileLoader 30 \<in> set (snd (GetUriPath local_env (FontFile_ctor 1)))
   \<and> snd (IDWriteFontFile_GetLoader local_env 1) = 10
   \<and> Ev_Release IDWriteFontFileLoader 10 \<notin> set (snd (GetUriPath local_env (FontFile_ctor 1)))
   \<and> IUnknown_QueryInterface local_env 10 guidForIDWriteLocalFontFileLoader = (S_OK, 30)"
proof -
  have r: "Ev_Release IDWriteLocalFontFileLoader 30
             \<in> set (snd (GetUriPath local_env (FontFile_ctor 1)))"
    by (simp add: GetUriPath_defs const_defs local_env_def String_of_wchars_def)
  have l: "snd (IDWriteFontFile_GetLoader local_env 1) = 10"
    and q: "IUnknown_QueryInterface local_env 10 guidForIDWriteLocalFontFileLoader = (S_OK, 30)"
    by (simp_all add: local_env_def)
  from r l q
    GetUriPath_never_releases_loader
      [of 10 local_env "FontFile_ctor 1" IDWriteLocalFontFileLoader]
  show ?thesis by blast
qed

subsection \<open>GetUriPath: the path buffer\<close>

text \<open>
  Claim C4. When \<^verbatim>\<open>GetUriPath\<close> returns from the local-file branch, the buffer
  was allocated with the reported length plus one characters (the addition does not
  wrap), that capacity was passed to the path retrieval, and the interface and the
  buffer were released afterwards. The returned string is the buffer's content up to
  its first terminator. It is never longer than the reported length, and when the
  path retrieval wrote the reported number of characters before the terminator, as
  the length query announced, the string has exactly the reported length; it has
  that length in no other case.
\<close>

theorem GetUriPath_local_branch_result:
  assumes "fontFile this = Some p"
    and "IDWriteFontFile_GetLoader n p = (h0, fontFileLoader)"
    and "IUnknown_QueryInterface n fontFileLoader guidForIDWriteLocalFontFileLoader
           = (hq, localFontFileLoader)"
    and "hq \<noteq> E_NOINTERFACE"
    and "IDWriteFontFile_GetReferenceKey n p = (h1, key, ksize)"
    and "GetFilePathLengthFromKey n localFontFileLoader key ksize = (h2, len)"
    and "GetFilePathFromKey n localFontFileLoader key ksize (len + 1) = (h3, buf)"
    and "GetUriPath n this = (Returned s, t)"
  shows "t = [Ev_GetLoader p,
              Ev_QueryInterface fontFileLoader guidForIDWriteLocalFontFileLoader,
              Ev_GetReferenceKey p,
              Ev_GetFilePathLengthFromKey localFontFileLoader key ksize,
              Ev_new_WCHAR (len + 1),
              Ev_GetFilePathFromKey localFontFileLoader key ksize (len + 1),
              Ev_Release IDWriteLocalFontFileLoader localFontFileLoader,
              Ev_delete_WCHAR]
       \<and> unat (len + 1) = unat len + 1
       \<and> s = takeWhile (\<lambda>c. c \<noteq> 0) (take (unat len + 1) buf)
       \<and> length s \<le> unat len
       \<and> (0 \<notin> set (take (unat len) buf) \<longrightarrow> length s = unat len)
       \<and> (length s = unat len) = (0 \<notin> set (take (unat len) buf))"
proof -
  have ne: "len \<noteq> UINT_MAX"
    using assms
    by (auto simp add: GetUriPath_defs Let_def below_UINT_MAX
        split: option.splits prod.splits if_splits outcome.splits)
  have u: "unat (len + 1) = Suc (unat len)"
    using unat_plus_one [OF ne] by simp
  have tr: "t = [Ev_GetLoader p,
              Ev_QueryInterface fontFileLoader guidForIDWriteLocalFontFileLoader,
              Ev_GetReferenceKey p,
              Ev_GetFilePathLengthFromKey localFontFileLoader key ksize,
              Ev_new_WCHAR (len + 1),
              Ev_GetFilePathFromKey localFontFileLoader key ksize (len + 1),
              Ev_Release IDWriteLocalFontFileLoader localFontFileLoader,
              Ev_delete_WCHAR]"
    and z: "0 \<in> set (take (Suc (unat len)) buf)"
    and s: "s = takeWhile (\<lambda>c. c \<noteq> 0) (take (Suc (unat len)) buf)"
    using assms u
    by (auto simp add: GetUriPath_defs Let_def below_UINT_MAX String_of_wchars_def
        split: option.splits prod.splits if_splits outcome.splits)
  from length_until_terminator [OF z] s tr u show ?thesis by simp
qed

theorem GetUriPath_local_branch_result_witness:
  "GetUriPath local_env (FontFile_ctor 1)
     = (Returned [0x43, 0x3A],
        [Ev_GetLoader 1, Ev_QueryInterface 10 guidForIDWriteLocalFontFileLoader,
         Ev_GetReferenceKey 1, Ev_GetFilePathLengthFromKey 30 20 6, Ev_new_WCHAR 3,
         Ev_GetFilePathFromKey 30 20 6 3, Ev_Release IDWriteLocalFontFileLoader 30,
         Ev_delete_WCHAR])
   \<and> GetFilePathLengthFromKey local_env 30 20 6 = (S_OK, 2)
   \<and> length [0x43, 0x3A :: WCHAR] = unat (2 :: UINT32)
   \<and> 0 \<notin> set (take (unat (2 :: UINT32)) [0x43, 0x3A, 0 :: WCHAR])"
proof -
  have h: "fontFile (FontFile_ctor 1) = Some 1" by (simp add: FontFile_ctor_def)
  have gl: "IDWriteFontFile_GetLoader local_env 1 = (S_OK, 10)"
    and qi: "IUnknown_QueryInterface local_env 10 guidForIDWriteLocalFontFileLoader = (S_OK, 30)"
    and rk: "IDWriteFontFile_GetReferenceKey local_env 1 = (S_OK, 20, 6)"
    and ln: "GetFilePathLengthFromKey local_env 30 20 6 = (S_OK, 2)"
    and pa: "GetFilePathFromKey local_env 30 20 6 (2 + 1) = (S_OK, [0x43, 0x3A, 0])"
    by (simp_all add: local_env_def)
  have ni: "S_OK \<noteq> E_NOINTERFACE" by (simp add: S_OK_def E_NOINTERFACE_def)
  have run: "GetUriPath local_env (FontFile_ctor 1)
     = (Returned [0x43, 0x3A],
        [Ev_GetLoader 1, Ev_QueryInterface 10 guidForIDWriteLocalFontFileLoader,
         Ev_GetReferenceKey 1, Ev_GetFilePathLengthFromKey 30 20 6, Ev_new_WCHAR 3,
         Ev_GetFilePathFromKey 30 20 6 3, Ev_Release IDWriteLocalFontFileLoader 30,
         Ev_delete_WCHAR])"
    by (simp add: run_defs)
  from GetUriPath_local_branch_result [OF h gl qi ni rk ln pa run] run ln
  show ?thesis by simp
qed

text \<open>
  The code does not compare the string with the reported length: a run with a loader
  whose path retrieval writes fewer characters than its length query reported.
\<close>

lemma GetUriPath_disagreeing_loader:
  "GetFilePathLengthFromKey
     (local_env\<lparr>GetFilePathLengthFromKey := (\<lambda>l k s. (S_OK, 5)),
                 GetFilePathFromKey := (\<lambda>l k s c. (S_OK, [0x43, 0x3A, 0, 0, 0, 0]))\<rparr>)
     30 20 6 = (S_OK, 5)
   \<and> GetUriPath
     (local_env\<lparr>GetFilePathLengthFromKey := (\<lambda>l k s. (S_OK, 5)),
                 GetFilePathFromKey := (\<lambda>l k s c. (S_OK, [0x43, 0x3A, 0, 0, 0, 0]))\<rparr>)
     (FontFile_ctor 1)
   = (Returned [0x43, 0x3A],
      [Ev_GetLoader 1, Ev_QueryInterface 10 guidForIDWriteLocalFontFileLoader,
       Ev_GetReferenceKey 1, Ev_GetFilePathLengthFromKey 30 20 6, Ev_new_WCHAR 6,
       Ev_GetFilePathFromKey 30 20 6 6, Ev_Release IDWriteLocalFontFileLoader 30,
       Ev_delete_WCHAR])"
  by (simp add: run_defs)

text \<open>
  Claim C6, as the code has it. In the local-file branch, once the path length was
  retrieved, the invariant stops the process exactly when the length is
  \<^verbatim>\<open>UINT_MAX\<close>; nothing is raised, allocated or retrieved then. Every other
  length passes, its successor does not wrap, and a buffer of that many characters is
  allocated.
\<close>

theorem GetUriPath_length_invariant:
  assumes "fontFile this = Some p" and "p \<noteq> 0"
    and "IDWriteFontFile_GetLoader n p = (h0, fontFileLoader)"
    and "\<not> FAILED h0" and "fontFileLoader \<noteq> 0"
    and "IUnknown_QueryInterface n fontFileLoader guidForIDWriteLocalFontFileLoader
           = (hq, localFontFileLoader)"
    and "hq \<noteq> E_NOINTERFACE" and "localFontFileLoader \<noteq> 0"
    and "IDWriteFontFile_GetReferenceKey n p = (h1, key, ksize)" and "\<not> FAILED h1"
    and "GetFilePathLengthFromKey n localFontFileLoader key ksize = (h2, len)"
    and "\<not> FAILED h2"
  shows "(fst (GetUriPath n this) = FailFast) = (len = UINT_MAX)
       \<and> (len = UINT_MAX \<longrightarrow>
            GetUriPath n this
              = (FailFast,
                 [Ev_GetLoader p,
                  Ev_QueryInterface fontFileLoader guidForIDWriteLocalFontFileLoader,
                  Ev_GetReferenceKey p,
                  Ev_GetFilePathLengthFromKey localFontFileLoader key ksize]))
       \<and> (len \<noteq> UINT_MAX \<longrightarrow> unat (len + 1) = unat len + 1)
       \<and> (len \<noteq> UINT_MAX \<and> operator_new n (len + 1) \<longrightarrow>
            Ev_new_WCHAR (len + 1) \<in> set (snd (GetUriPath n this)))"
  using assms unat_plus_one [of len]
  by (auto simp add: GetUriPath_defs Let_def below_UINT_MAX
      split: option.splits prod.splits if_splits outcome.splits)

theorem GetUriPath_length_invariant_witness:
  "GetUriPath (local_env\<lparr>GetFilePathLengthFromKey := (\<lambda>l k s. (S_OK, 0xFFFFFFFF))\<rparr>)
     (FontFile_ctor 1)
   = (FailFast,
      [Ev_GetLoader 1, Ev_QueryInterface 10 guidForIDWriteLocalFontFileLoader,
       Ev_GetReferenceKey 1, Ev_GetFilePathLengthFromKey 30 20 6])
   \<and> fst (GetUriPath local_env (FontFile_ctor 1)) \<noteq> FailFast"
proof -
  let ?n = "local_env\<lparr>GetFilePathLengthFromKey := (\<lambda>l k s. (S_OK, 0xFFFFFFFF))\<rparr>"
  have h: "fontFile (FontFile_ctor 1) = Some 1" "(1::nat) \<noteq> 0"
    by (simp_all add: FontFile_ctor_def)
  have l: "(10::nat) \<noteq> 0" and w: "(30::nat) \<noteq> 0" by simp_all
  have ni: "S_OK \<noteq> E_NOINTERFACE" by (simp add: S_OK_def E_NOINTERFACE_def)
  have gl: "IDWriteFontFile_GetLoader ?n 1 = (S_OK, 10)"
    and qi: "IUnknown_QueryInterface ?n 10 guidForIDWriteLocalFontFileLoader = (S_OK, 30)"
    and rk: "IDWriteFontFile_GetReferenceKey ?n 1 = (S_OK, 20, 6)"
    and ln: "GetFilePathLengthFromKey ?n 30 20 6 = (S_OK, 0xFFFFFFFF)"
    by (simp_all add: local_env_def)
  have gl0: "IDWriteFontFile_GetLoader local_env 1 = (S_OK, 10)"
    and qi0: "IUnknown_QueryInterface local_env 10 guidForIDWriteLocalFontFileLoader = (S_OK, 30)"
    and rk0: "IDWriteFontFile_GetReferenceKey local_env 1 = (S_OK, 20, 6)"
    and ln0: "GetFilePathLengthFromKey local_env 30 20 6 = (S_OK, 2)"
    by (simp_all add: local_env_def)
  from GetUriPath_length_invariant
         [OF h gl not_FAILED_S_OK l qi ni w rk not_FAILED_S_OK ln not_FAILED_S_OK]
       GetUriPath_length_invariant
         [OF h gl0 not_FAILED_S_OK l qi0 ni w rk0 not_FAILED_S_OK ln0 not_FAILED_S_OK]
  show ?thesis by (simp add: UINT_MAX_def)
qed

text \<open>
  Claim C6 as stated fails: the invariant does not require a small or moderate count.
  A reported length of 4294967294 characters passes it, and a buffer of 4294967295
  characters is requested.
\<close>

theorem GetUriPath_accepts_huge_length:
  "GetUriPath (local_env\<lparr>GetFilePathLengthFromKey := (\<lambda>l k s. (S_OK, 0xFFFFFFFE))\<rparr>)
     (FontFile_ctor 1)
   = (Returned [0x43, 0x3A],
      [Ev_GetLoader 1, Ev_QueryInterface 10 guidForIDWriteLocalFontFileLoader,
       Ev_GetReferenceKey 1, Ev_GetFilePathLengthFromKey 30 20 6, Ev_new_WCHAR 0xFFFFFFFF,
       Ev_GetFilePathFromKey 30 20 6 0xFFFFFFFF, Ev_Release IDWriteLocalFontFileLoader 30,
       Ev_delete_WCHAR])
   \<and> unat (0xFFFFFFFE :: UINT32) = 4294967294"
  by (simp add: run_defs)

end
